theory Spec2Isabelle
  imports Main "HOL-Library.Char_ord" "HOL-Library.List_Lexorder"
begin

section \<open>Data model (supabase/schema.sql)\<close>

text \<open>
  Rows of the relational store, one record per table, with the columns the routes read
  or write. Identifiers are the text of a uuid; instants are milliseconds since the
  epoch, the time value a JavaScript \<open>Date\<close> holds. A nullable column is an option.
  Column names shared by several tables carry the table's name.
\<close>

type_synonym uuid = string
type_synonym instant = int

record company =
  companies_id :: uuid
  plan :: string
  sku_limit :: int

record user =
  users_id :: uuid
  users_company_id :: uuid
  email :: string

record sku =
  skus_id :: uuid
  skus_company_id :: uuid
  sku_code :: string
  product_name :: string
  category :: string
  status :: string
  file_url :: "string option"
  video_url :: "string option"
  qr_code_url :: "string option"
  qr_target_url :: "string option"
  step_count :: "int option"
  video_duration :: "int option"
  updated_at :: instant

record scan =
  scans_sku_id :: uuid
  scans_company_id :: uuid
  scans_session_id :: string
  user_agent :: "string option"
  hour_of_day :: int
  completed :: bool
  completion_step :: "int option"
  rating :: "int option"
  scanned_at :: instant

record question =
  questions_sku_id :: uuid
  questions_company_id :: uuid
  questions_session_id :: string
  question_text :: string
  step_number :: "int option"
  asked_at :: instant

record preference =
  preferences_user_id :: uuid
  qr_ready :: "bool option"

text \<open>The message \<open>sendQRReadyEmail\<close> hands to the mail transport.\<close>

record mail =
  mail_to :: string
  mail_productName :: string
  mail_skuCode :: string
  mail_qrCodeUrl :: string
  mail_qrTargetUrl :: string

text \<open>The tables, and the messages the transport has accepted so far.\<close>

record state =
  skus :: "sku list"
  scans :: "scan list"
  questions :: "question list"
  notification_preferences :: "preference list"
  outbox :: "mail list"

text \<open>
  What the process reads from its surroundings during one operation: the configured base
  of the public URLs, whether writing the code image and handing the message to the mail
  transport succeed, the clock, the local time zone as a fixed offset from UTC in
  milliseconds, and the identifier the store generates for an inserted row.
\<close>

record env =
  QR_BASE_URL :: string
  toFile_ok :: bool
  sendMail_ok :: bool
  now :: instant
  tza :: int
  new_uuid :: uuid

text \<open>
  A field of a JSON request body that the route uses without a presence check: it can
  be missing, null or given.
\<close>

datatype 'a field = Undefined | Null | Given 'a

section \<open>The store's query builder\<close>

text \<open>
  \<open>.single()\<close>: the data is the row when the query yields exactly one row; with no row
  or with several the data is null and an error is set. The routes test the data (the
  status poll tests both, to the same effect).
\<close>

definition single :: "'a list \<Rightarrow> 'a option" where
  "single rows = (case rows of [r] \<Rightarrow> Some r | _ \<Rightarrow> None)"

text \<open>
  An update applies a change to the rows at the selected positions of a table.
\<close>

definition update_rows :: "nat list \<Rightarrow> ('a \<Rightarrow> 'a) \<Rightarrow> 'a list \<Rightarrow> 'a list" where
  "update_rows sel f rows = fold (\<lambda>i xs. xs[i := f (xs ! i)]) sel rows"

text \<open>
  The unique constraints of table \<open>skus\<close>: the primary key and \<open>unique(company_id, sku_code)\<close>.
  An insert that would break one fails and leaves the table as it was.
\<close>

definition insert_sku :: "sku \<Rightarrow> sku list \<Rightarrow> sku list option" where
  "insert_sku r rows =
     (if \<exists>x \<in> set rows. skus_id x = skus_id r \<or>
           (skus_company_id x = skus_company_id r \<and> sku_code x = sku_code r)
      then None else Some (rows @ [r]))"

section \<open>Responses\<close>

text \<open>
  A response is its HTTP status and its body. Bodies whose text the routes build from
  fixed wording are constructors; \<open>Error\<close> carries the route's \<open>error\<close> text.
\<close>

record status_row =
  row_id :: uuid
  row_status :: string
  row_qr_code_url :: "string option"
  row_qr_target_url :: "string option"
  row_video_url :: "string option"
  row_step_count :: "int option"

datatype body =
    Error string
  | SkuLimitReached string int int
  | FileTooLarge
  | SkuCodeExists string
  | SkuCreated uuid string string string
  | Success
  | StatusOf string status_row
  | NotFoundPage
  | GuidePage string string "int option" "int option"
  | Series "(string \<times> nat) list"

datatype response = Response (status_code: nat) (body: body)

datatype middleware = Next | Respond response

section \<open>middleware/auth.js: checkSkuLimit\<close>

text \<open>
  The request reaches the guard with \<open>req.company\<close> and \<open>req.companyId\<close> attached by
  \<open>requireAuth\<close>. The body of a denial carries the plan's name (used in the message),
  \<open>currentCount\<close> and \<open>limit\<close>.
\<close>

definition checkSkuLimit :: "company \<Rightarrow> uuid \<Rightarrow> sku list \<Rightarrow> middleware" where
  "checkSkuLimit company companyId rows =
     (if sku_limit company = - 1 then Next
      else
        let count = int (length (filter (\<lambda>s. skus_company_id s = companyId \<and> status s = ''live'') rows))
        in if count \<ge> sku_limit company
           then Respond (Response 403 (SkuLimitReached (plan company) count (sku_limit company)))
           else Next)"

text \<open>The number of items of a company that are in \<open>live\<close> status.\<close>

definition liveCount :: "uuid \<Rightarrow> sku list \<Rightarrow> int" where
  "liveCount companyId rows =
     int (card {i. i < length rows \<and> skus_company_id (rows ! i) = companyId \<and> status (rows ! i) = ''live''})"

section \<open>lib/video.js\<close>

record step =
  stepNumber :: int
  description :: string

text \<open>The placeholder extraction: six fixed steps, whatever the file.\<close>

definition parseSteps :: "string \<Rightarrow> step list" where
  "parseSteps fileContent =
     [\<lparr>stepNumber = 1, description = ''Lay out all parts on a flat surface and identify each component using the parts list.''\<rparr>,
      \<lparr>stepNumber = 2, description = ''Attach the side panels to the base using the provided cam locks. Do not fully tighten yet.''\<rparr>,
      \<lparr>stepNumber = 3, description = ''Insert the shelf pins into the pre-drilled holes at your desired height.''\<rparr>,
      \<lparr>stepNumber = 4, description = ''Slide the shelves into position on the shelf pins.''\<rparr>,
      \<lparr>stepNumber = 5, description = ''Attach the back panel by pressing it into the frame grooves.''\<rparr>,
      \<lparr>stepNumber = 6, description = ''Fully tighten all cam locks and check that the unit is stable.''\<rparr>]"

record video =
  videoUrl :: string
  videoDuration :: int
  stepCount :: int

definition generateVideo :: "uuid \<Rightarrow> string \<Rightarrow> string \<Rightarrow> step list \<Rightarrow> video" where
  "generateVideo skuId skuCode productName steps =
     \<lparr>videoUrl = ''https://storage.assemblyai.app/videos/'' @ skuId @ ''/assembly.mp4'',
      videoDuration = int (length steps) * 38,
      stepCount = int (length steps)\<rparr>"

section \<open>lib/qr.js\<close>

datatype failure = QRWriteFailed | MailFailed | InvalidDate

record qr =
  qrCodeUrl :: string
  qrTargetUrl :: string

text \<open>\<open>QRCode.toFile\<close> writes the image; when it rejects, so does \<open>generateQRCode\<close>.\<close>

definition generateQRCode :: "env \<Rightarrow> uuid \<Rightarrow> string \<Rightarrow> failure + qr" where
  "generateQRCode e skuId skuCode =
     (if toFile_ok e
      then Inr \<lparr>qrCodeUrl = ''/public/qr/'' @ skuId @ ''.png'',
                qrTargetUrl = QR_BASE_URL e @ ''/'' @ skuCode\<rparr>
      else Inl QRWriteFailed)"

section \<open>lib/email.js\<close>

text \<open>
  \<open>sendQRReadyEmail\<close> awaits \<open>transporter.sendMail\<close>: the message joins the outbox, or
  the call rejects.
\<close>

definition sendQRReadyEmail :: "env \<Rightarrow> mail \<Rightarrow> state \<Rightarrow> failure + state" where
  "sendQRReadyEmail e m st =
     (if sendMail_ok e then Inr (st\<lparr>outbox := outbox st @ [m]\<rparr>) else Inl MailFailed)"

section \<open>routes/skus.js\<close>

subsection \<open>Background processing\<close>

text \<open>
  Step 4 of \<open>processSkuGeneration\<close>: the one update that sets the derived fields and
  the status \<open>live\<close> on the rows with the item's id.
\<close>

definition update_to_live :: "env \<Rightarrow> sku \<Rightarrow> video \<Rightarrow> qr \<Rightarrow> state \<Rightarrow> state" where
  "update_to_live e sku v q st =
     st\<lparr>skus := map (\<lambda>r. if skus_id r = skus_id sku
                          then r\<lparr>status := ''live'',
                                 video_url := Some (videoUrl v),
                                 video_duration := Some (videoDuration v),
                                 step_count := Some (stepCount v),
                                 qr_code_url := Some (qrCodeUrl q),
                                 qr_target_url := Some (qrTargetUrl q),
                                 updated_at := now e\<rparr>
                          else r) (skus st)\<rparr>"

text \<open>
  Step 5: the user's preference row is read with \<open>.single()\<close>; without data, or with
  \<open>qr_ready\<close> set, the mail is sent and awaited.
\<close>

definition send_notification :: "env \<Rightarrow> sku \<Rightarrow> user \<Rightarrow> qr \<Rightarrow> state \<Rightarrow> failure + state" where
  "send_notification e sku usr q st =
     (if (case single (filter (\<lambda>p. preferences_user_id p = users_id usr)
                         (notification_preferences st)) of
            None \<Rightarrow> True
          | Some p \<Rightarrow> qr_ready p = Some True)
      then sendQRReadyEmail e
             \<lparr>mail_to = email usr, mail_productName = product_name sku,
              mail_skuCode = sku_code sku, mail_qrCodeUrl = qrCodeUrl q,
              mail_qrTargetUrl = qrTargetUrl q\<rparr> st
      else Inr st)"

text \<open>
  \<open>processSkuGeneration\<close> after its first line, with the extracted steps at hand:
  video, code image, the update to \<open>live\<close>, the notification. The result is the
  failure that rejected the promise, if any, and the state the run left behind.
\<close>

definition generation_from_steps ::
    "env \<Rightarrow> state \<Rightarrow> sku \<Rightarrow> user \<Rightarrow> step list \<Rightarrow> failure option \<times> state" where
  "generation_from_steps e st sku usr steps =
     (case generateQRCode e (skus_id sku) (sku_code sku) of
        Inl err \<Rightarrow> (Some err, st)
      | Inr q \<Rightarrow>
          (case send_notification e sku usr q
                  (update_to_live e sku
                     (generateVideo (skus_id sku) (sku_code sku) (product_name sku) steps) q st) of
             Inl err \<Rightarrow>
               (Some err,
                update_to_live e sku
                  (generateVideo (skus_id sku) (sku_code sku) (product_name sku) steps) q st)
           | Inr st2 \<Rightarrow> (None, st2)))"

definition processSkuGeneration ::
    "env \<Rightarrow> state \<Rightarrow> sku \<Rightarrow> user \<Rightarrow> string \<Rightarrow> failure option \<times> state" where
  "processSkuGeneration e st sku usr file_path =
     generation_from_steps e st sku usr (parseSteps file_path)"

text \<open>
  The call in \<open>POST /api/skus\<close> with its \<open>.catch\<close>: a rejection of
  \<open>processSkuGeneration\<close>, whatever its cause, marks the item as \<open>error\<close>.
\<close>

definition background_processing :: "env \<Rightarrow> state \<Rightarrow> sku \<Rightarrow> user \<Rightarrow> string \<Rightarrow> state" where
  "background_processing e st sku usr file_path =
     (case processSkuGeneration e st sku usr file_path of
        (None, st') \<Rightarrow> st'
      | (Some err, st') \<Rightarrow>
          st'\<lparr>skus := map (\<lambda>r. if skus_id r = skus_id sku then r\<lparr>status := ''error''\<rparr> else r)
                          (skus st')\<rparr>)"

subsection \<open>POST /api/skus\<close>

text \<open>
  An uploaded file as the upload middleware sees it: the lower-cased extension of its
  original name, its size in bytes, and the name it is stored under.
\<close>

record upload_file =
  ext :: string
  bytes :: nat
  filename :: string

record create_request =
  req_user :: user
  req_company :: company
  req_companyId :: uuid
  skuCode :: "string option"
  productName :: "string option"
  req_category :: "string option"
  req_file :: "upload_file option"

text \<open>
  \<open>upload.single('file')\<close>: a file of another type makes the filter pass an error on,
  which the server's error handler answers with 500; a file whose size reaches the limit
  of 50MB is answered with 400 there.
\<close>

definition upload :: "upload_file option \<Rightarrow> response + upload_file option" where
  "upload f =
     (case f of
        None \<Rightarrow> Inr None
      | Some u \<Rightarrow>
          if ext u \<notin> set [''.pdf'', ''.png'', ''.jpg'', ''.jpeg'', ''.heic'']
          then Inl (Response 500 (Error ''Internal server error''))
          else if bytes u \<ge> 50 * 1024 * 1024 then Inl (Response 400 FileTooLarge)
          else Inr (Some u))"

text \<open>JavaScript's \<open>!x\<close> for a text field of a form: missing or empty.\<close>

definition falsy :: "string option \<Rightarrow> bool" where
  "falsy x = (x = None \<or> x = Some '''')"

text \<open>
  The handler of the route, then the route with its middleware chain (after
  \<open>requireAuth\<close>): quota guard, upload, handler. Besides the response and the new
  state they return the created row when the background processing is started for it.
  The body of the 409 carries the code its message quotes.
\<close>

definition new_row :: "env \<Rightarrow> create_request \<Rightarrow> upload_file \<Rightarrow> sku" where
  "new_row e req f =
     \<lparr>skus_id = new_uuid e, skus_company_id = req_companyId req,
      sku_code = the (skuCode req), product_name = the (productName req),
      category = (if falsy (req_category req) then ''Other'' else the (req_category req)),
      status = ''processing'',
      file_url = Some (''/uploads/'' @ filename f),
      video_url = None, qr_code_url = None, qr_target_url = None,
      step_count = None, video_duration = None,
      updated_at = now e\<rparr>"

definition create_handler ::
    "env \<Rightarrow> state \<Rightarrow> create_request \<Rightarrow> upload_file option \<Rightarrow> response \<times> state \<times> sku option" where
  "create_handler e st req file =
     (if falsy (skuCode req) \<or> falsy (productName req)
      then (Response 400 (Error ''SKU code and product name are required''), st, None)
      else if file = None
      then (Response 400 (Error ''Instruction file is required''), st, None)
      else if single (filter (\<lambda>s. skus_company_id s = req_companyId req \<and>
                                   sku_code s = the (skuCode req)) (skus st)) \<noteq> None
      then (Response 409 (SkuCodeExists (the (skuCode req))), st, None)
      else (case insert_sku (new_row e req (the file)) (skus st) of
              None \<Rightarrow> (Response 500 (Error ''Failed to create SKU''), st, None)
            | Some rows \<Rightarrow>
                (Response 202 (SkuCreated (new_uuid e) (the (skuCode req))
                                 (the (productName req)) ''processing''),
                 st\<lparr>skus := rows\<rparr>, Some (new_row e req (the file)))))"

definition post_skus :: "env \<Rightarrow> state \<Rightarrow> create_request \<Rightarrow> response \<times> state \<times> sku option" where
  "post_skus e st req =
     (case checkSkuLimit (req_company req) (req_companyId req) (skus st) of
        Respond r \<Rightarrow> (r, st, None)
      | Next \<Rightarrow>
          (case upload (req_file req) of
             Inl r \<Rightarrow> (r, st, None)
           | Inr file \<Rightarrow> create_handler e st req file))"

subsection \<open>GET /api/skus/:id/status\<close>

definition get_status :: "state \<Rightarrow> uuid \<Rightarrow> uuid \<Rightarrow> response" where
  "get_status st itemId companyId =
     (case single (filter (\<lambda>s. skus_id s = itemId \<and> skus_company_id s = companyId) (skus st)) of
        None \<Rightarrow> Response 404 (Error ''SKU not found'')
      | Some s \<Rightarrow>
          Response 200 (StatusOf (status s)
            \<lparr>row_id = skus_id s, row_status = status s, row_qr_code_url = qr_code_url s,
             row_qr_target_url = qr_target_url s, row_video_url = video_url s,
             row_step_count = step_count s\<rparr>))"

subsection \<open>DELETE /api/skus/:id\<close>

text \<open>Scans and questions of the item go with it (\<open>on delete cascade\<close>).\<close>

definition delete_sku :: "state \<Rightarrow> uuid \<Rightarrow> uuid \<Rightarrow> response \<times> state" where
  "delete_sku st itemId companyId =
     (let gone = filter (\<lambda>s. skus_id s = itemId \<and> skus_company_id s = companyId) (skus st)
      in (Response 200 Success,
          st\<lparr>skus := filter (\<lambda>s. \<not> (skus_id s = itemId \<and> skus_company_id s = companyId)) (skus st),
             scans := filter (\<lambda>c. scans_sku_id c \<notin> skus_id ` set gone) (scans st),
             questions := filter (\<lambda>q. questions_sku_id q \<notin> skus_id ` set gone) (questions st)\<rparr>))"

section \<open>JavaScript dates\<close>

text \<open>
  A \<open>Date\<close> is its time value. The accessors follow the language standard: days are
  counted from 1970-01-01, a Thursday; the calendar is the proleptic Gregorian one;
  \<open>toISOString\<close> reads the value in UTC, the \<open>get\<close> accessors and \<open>setDate\<close> read
  it in local time, here UTC shifted by the fixed offset \<open>tza\<close>.
\<close>

definition msPerDay :: int where
  "msPerDay = 86400000"

definition Day :: "instant \<Rightarrow> int" where
  "Day t = t div msPerDay"

definition WeekDay :: "instant \<Rightarrow> int" where
  "WeekDay t = (Day t + 4) mod 7"

text \<open>
  Year, month (1 to 12) and day of the month of a day number, by eras of 400 years that
  start on 1 March: the day of the era, the year of the era, the day of that year, and
  the month counted from March.
\<close>

definition era :: "int \<Rightarrow> int" where
  "era z = (z + 719468) div 146097"

definition doe :: "int \<Rightarrow> int" where
  "doe z = (z + 719468) mod 146097"

definition yoe :: "int \<Rightarrow> int" where
  "yoe z = (doe z - doe z div 1460 + doe z div 36524 - doe z div 146096) div 365"

definition doy :: "int \<Rightarrow> int" where
  "doy z = doe z - (365 * yoe z + yoe z div 4 - yoe z div 100)"

definition mp :: "int \<Rightarrow> int" where
  "mp z = (5 * doy z + 2) div 153"

definition civil_day :: "int \<Rightarrow> int" where
  "civil_day z = doy z - (153 * mp z + 2) div 5 + 1"

definition civil_month :: "int \<Rightarrow> int" where
  "civil_month z = (if mp z < 10 then mp z + 3 else mp z - 9)"

definition civil_year :: "int \<Rightarrow> int" where
  "civil_year z = yoe z + era z * 400 + (if civil_month z \<le> 2 then 1 else 0)"

definition YearFromTime :: "instant \<Rightarrow> int" where
  "YearFromTime t = civil_year (Day t)"

definition MonthFromTime :: "instant \<Rightarrow> int" where
  "MonthFromTime t = civil_month (Day t) - 1"

definition DateFromTime :: "instant \<Rightarrow> int" where
  "DateFromTime t = civil_day (Day t)"

definition LocalTime :: "int \<Rightarrow> instant \<Rightarrow> int" where
  "LocalTime z t = t + z"

definition getFullYear :: "int \<Rightarrow> instant \<Rightarrow> int" where
  "getFullYear z t = YearFromTime (LocalTime z t)"

definition getMonth :: "int \<Rightarrow> instant \<Rightarrow> int" where
  "getMonth z t = MonthFromTime (LocalTime z t)"

definition getDate :: "int \<Rightarrow> instant \<Rightarrow> int" where
  "getDate z t = DateFromTime (LocalTime z t)"

definition getDay :: "int \<Rightarrow> instant \<Rightarrow> int" where
  "getDay z t = WeekDay (LocalTime z t)"

definition getHours :: "int \<Rightarrow> instant \<Rightarrow> int" where
  "getHours z t = (LocalTime z t mod msPerDay) div 3600000"

text \<open>
  \<open>setDate\<close> keeps the local year, month and time of day and sets the day of the month,
  carrying into the neighbouring months: the value moves by whole days.
\<close>

definition setDate :: "int \<Rightarrow> instant \<Rightarrow> int \<Rightarrow> instant" where
  "setDate z t dt = t + (dt - getDate z t) * msPerDay"

text \<open>Decimal digits of a number, and \<open>padStart(n, '0')\<close>.\<close>

definition digit :: "nat \<Rightarrow> char" where
  "digit n = ''0123456789'' ! (n mod 10)"

fun decimal :: "nat \<Rightarrow> string" where
  "decimal n = (if 10 \<le> n then decimal (n div 10) else []) @ [digit n]"

text \<open>The text of a number in a template or under \<open>String()\<close>.\<close>

definition number_text :: "int \<Rightarrow> string" where
  "number_text i = (if 0 \<le> i then decimal (nat i) else CHR ''-'' # decimal (nat (- i)))"

definition padStart :: "nat \<Rightarrow> string \<Rightarrow> string" where
  "padStart n s = replicate (n - length s) (CHR ''0'') @ s"

text \<open>
  The part of \<open>toISOString()\<close> before the \<open>T\<close>: four digits for the years 0 to 9999,
  a sign and six digits for the others.
\<close>

definition isoYear :: "int \<Rightarrow> string" where
  "isoYear y =
     (if 0 \<le> y \<and> y \<le> 9999 then padStart 4 (decimal (nat y))
      else (if y < 0 then ''-'' else ''+'') @ padStart 6 (decimal (nat \<bar>y\<bar>)))"

definition toISODate :: "instant \<Rightarrow> string" where
  "toISODate t =
     isoYear (YearFromTime t)
       @ ''-'' @ padStart 2 (decimal (nat (MonthFromTime t + 1)))
       @ ''-'' @ padStart 2 (decimal (nat (DateFromTime t)))"

section \<open>routes/analytics.js\<close>

subsection \<open>Helpers\<close>

text \<open>
  \<open>map[period]\<close> in \<open>getStartDate\<close>: the presets are the own keys of the object
  literal. Any other text means no filter, except the names every object inherits: for
  these the lookup is truthy, the subtraction is not a number, the date becomes invalid
  and \<open>toISOString\<close> throws.
\<close>

definition period_days :: "string \<Rightarrow> int option" where
  "period_days period =
     (if period = ''7d'' then Some 7 else if period = ''30d'' then Some 30
      else if period = ''3m'' then Some 90 else if period = ''6m'' then Some 180
      else if period = ''1y'' then Some 365 else None)"

definition inherited_name :: "string \<Rightarrow> bool" where
  "inherited_name period =
     (period \<in> set [''constructor'', ''__proto__'', ''hasOwnProperty'', ''isPrototypeOf'',
                     ''propertyIsEnumerable'', ''toLocaleString'', ''toString'', ''valueOf'',
                     ''__defineGetter__'', ''__defineSetter__'', ''__lookupGetter__'',
                     ''__lookupSetter__''])"

definition getStartDate :: "env \<Rightarrow> string \<Rightarrow> failure + instant option" where
  "getStartDate e period =
     (case period_days period of
        Some n \<Rightarrow> Inr (Some (setDate (tza e) (now e) (getDate (tza e) (now e) - n)))
      | None \<Rightarrow> if inherited_name period then Inl InvalidDate else Inr None)"

definition getGroupBy :: "string \<Rightarrow> string" where
  "getGroupBy period =
     (if period = ''7d'' then ''day''
      else if period = ''30d'' then ''day''
      else if period = ''3m'' \<or> period = ''6m'' then ''week''
      else ''month'')"

text \<open>The key of one scan, as the body of the loop in \<open>groupScans\<close> computes it.\<close>

definition bucket_key :: "int \<Rightarrow> string \<Rightarrow> instant \<Rightarrow> string" where
  "bucket_key z groupBy d =
     (if groupBy = ''day'' then toISODate d
      else if groupBy = ''week'' then toISODate (setDate z d (getDate z d - getDay z d))
      else number_text (getFullYear z d) @ ''-''
             @ padStart 2 (number_text (getMonth z d + 1)))"

text \<open>
  \<open>groups[key] = (groups[key] || 0) + 1\<close> on an object, whose entries keep the order in
  which their keys were first set.
\<close>

fun bump :: "string \<Rightarrow> (string \<times> nat) list \<Rightarrow> (string \<times> nat) list" where
  "bump key [] = [(key, 1)]"
| "bump key ((k, c) # groups) =
     (if k = key then (k, c + 1) # groups else (k, c) # bump key groups)"

text \<open>
  The scans are the \<open>scanned_at\<close> values the query selected. The entries are sorted by
  \<open>localeCompare\<close> of their keys, read as the order of texts character by character
  (the keys hold digits, hyphens and signs only); the sort is stable.
\<close>

definition groupScans :: "int \<Rightarrow> instant list \<Rightarrow> string \<Rightarrow> (string \<times> nat) list" where
  "groupScans z scanned groupBy =
     sort_key fst (fold (\<lambda>d groups. bump (bucket_key z groupBy d) groups) scanned [])"

subsection \<open>GET /api/analytics/scans\<close>

definition get_scans :: "env \<Rightarrow> state \<Rightarrow> uuid \<Rightarrow> string option \<Rightarrow> response" where
  "get_scans e st companyId period_param =
     (case getStartDate e (if falsy period_param then ''7d'' else the period_param) of
        Inl err \<Rightarrow> Response 500 (Error ''Failed to fetch scan data'')
      | Inr startDate \<Rightarrow>
          Response 200
            (Series
               (groupScans (tza e)
                  (map scanned_at
                     (filter (\<lambda>c. scans_company_id c = companyId \<and>
                                     (case startDate of None \<Rightarrow> True
                                      | Some t \<Rightarrow> scanned_at c \<ge> t))
                        (scans st)))
                  (getGroupBy (if falsy period_param then ''7d'' else the period_param)))))"

subsection \<open>POST /api/analytics/scan\<close>

record scan_request =
  scan_skuCode :: "string option"
  scan_sessionId :: "string option"
  scan_userAgent :: "string option"

definition post_scan :: "env \<Rightarrow> state \<Rightarrow> scan_request \<Rightarrow> response \<times> state" where
  "post_scan e st req =
     (if falsy (scan_skuCode req) then (Response 400 (Error ''SKU code is required''), st)
      else
        (case single (filter (\<lambda>s. sku_code s = the (scan_skuCode req) \<and> status s = ''live'') (skus st)) of
           None \<Rightarrow> (Response 404 (Error ''SKU not found''), st)
         | Some s \<Rightarrow>
             (Response 200 Success,
              st\<lparr>scans := scans st @
                   [\<lparr>scans_sku_id = skus_id s, scans_company_id = skus_company_id s,
                     scans_session_id = (if falsy (scan_sessionId req) then ''anonymous''
                                         else the (scan_sessionId req)),
                     user_agent = scan_userAgent req,
                     hour_of_day = getHours (tza e) (now e),
                     completed = False, completion_step = None, rating = None,
                     scanned_at = now e\<rparr>]\<rparr>)))"

subsection \<open>POST /api/analytics/complete\<close>

text \<open>
  The body's code and session are the texts the filters compare with. \<open>rating || null\<close>
  stores null for a missing, null or zero rating; a missing \<open>completionStep\<close> leaves the
  column out of the update, a null one clears it.
\<close>

record complete_request =
  complete_skuCode :: string
  complete_sessionId :: string
  completionStep :: "int field"
  complete_rating :: "int field"

definition completion :: "complete_request \<Rightarrow> scan \<Rightarrow> scan" where
  "completion req row =
     row\<lparr>completed := True,
         completion_step := (case completionStep req of
                               Undefined \<Rightarrow> completion_step row
                             | Null \<Rightarrow> None
                             | Given n \<Rightarrow> Some n),
         rating := (case complete_rating req of
                      Given n \<Rightarrow> (if n = 0 then None else Some n)
                    | _ \<Rightarrow> None)\<rparr>"

text \<open>
  The columns \<open>completion_step\<close> and \<open>rating\<close> are 32-bit integers: the store refuses
  an update that carries a value outside them, and no row changes. The route does not
  read the store's answer to the update.
\<close>

definition int4 :: "int \<Rightarrow> bool" where
  "int4 n = (- 2147483648 \<le> n \<and> n \<le> 2147483647)"

definition accepted :: "complete_request \<Rightarrow> bool" where
  "accepted req =
     ((case completionStep req of Given n \<Rightarrow> int4 n | _ \<Rightarrow> True) \<and>
      (case complete_rating req of Given n \<Rightarrow> int4 n | _ \<Rightarrow> True))"

text \<open>
  The rows the update addresses: the filters on item and session, the order by
  \<open>scanned_at\<close> descending, the limit of one. Rows are named by their position in the
  table. Among rows of the same latest instant the store may take any; the model takes
  the first.
\<close>

definition of_session :: "uuid \<Rightarrow> string \<Rightarrow> scan \<Rightarrow> bool" where
  "of_session skuId sessionId row =
     (scans_sku_id row = skuId \<and> scans_session_id row = sessionId)"

definition latest_scan :: "uuid \<Rightarrow> string \<Rightarrow> scan list \<Rightarrow> nat list" where
  "latest_scan skuId sessionId rows =
     take 1 (sort_key (\<lambda>i. - scanned_at (rows ! i))
               (filter (\<lambda>i. of_session skuId sessionId (rows ! i)) [0..<length rows]))"

definition post_complete :: "state \<Rightarrow> complete_request \<Rightarrow> response \<times> state" where
  "post_complete st req =
     (case single (filter (\<lambda>s. sku_code s = complete_skuCode req) (skus st)) of
        None \<Rightarrow> (Response 404 (Error ''SKU not found''), st)
      | Some s \<Rightarrow>
          (Response 200 Success,
           if accepted req
           then st\<lparr>scans := update_rows (latest_scan (skus_id s) (complete_sessionId req) (scans st))
                               (completion req) (scans st)\<rparr>
           else st))"

subsection \<open>POST /api/analytics/question\<close>

record question_request =
  question_skuCode :: "string option"
  question_sessionId :: "string option"
  questionText :: "string option"
  question_stepNumber :: "int option"

definition post_question :: "env \<Rightarrow> state \<Rightarrow> question_request \<Rightarrow> response \<times> state" where
  "post_question e st req =
     (if falsy (question_skuCode req) \<or> falsy (questionText req)
      then (Response 400 (Error ''SKU code and question text are required''), st)
      else
        (case single (filter (\<lambda>s. sku_code s = the (question_skuCode req)) (skus st)) of
           None \<Rightarrow> (Response 404 (Error ''SKU not found''), st)
         | Some s \<Rightarrow>
             (Response 200 Success,
              st\<lparr>questions := questions st @
                   [\<lparr>questions_sku_id = skus_id s, questions_company_id = skus_company_id s,
                     questions_session_id = (if falsy (question_sessionId req) then ''anonymous''
                                             else the (question_sessionId req)),
                     question_text = the (questionText req),
                     step_number = question_stepNumber req,
                     asked_at = now e\<rparr>]\<rparr>)))"

section \<open>server.js: GET /s/:skuCode\<close>

text \<open>
  The consumer page: what it embeds is the code of the URL, the product's name, the
  step count and the video's duration.
\<close>

definition get_guide :: "state \<Rightarrow> string \<Rightarrow> response" where
  "get_guide st code =
     (case single (filter (\<lambda>s. sku_code s = code \<and> status s = ''live'') (skus st)) of
        None \<Rightarrow> Response 404 NotFoundPage
      | Some s \<Rightarrow> Response 200 (GuidePage code (product_name s) (step_count s) (video_duration s)))"

section \<open>The item invariant\<close>

text \<open>
  The derived fields of an item are the video reference, the duration, the step count,
  the code image reference and the target URL. An item is consistent when its status is
  \<open>live\<close> and all of them are set, or its status is \<open>processing\<close> or \<open>error\<close> and
  none of them is set.
\<close>

definition all_derived :: "sku \<Rightarrow> bool" where
  "all_derived r =
     (video_url r \<noteq> None \<and> video_duration r \<noteq> None \<and> step_count r \<noteq> None \<and>
      qr_code_url r \<noteq> None \<and> qr_target_url r \<noteq> None)"

definition no_derived :: "sku \<Rightarrow> bool" where
  "no_derived r =
     (video_url r = None \<and> video_duration r = None \<and> step_count r = None \<and>
      qr_code_url r = None \<and> qr_target_url r = None)"

definition consistent :: "sku \<Rightarrow> bool" where
  "consistent r =
     (if status r = ''live'' then all_derived r
      else (status r = ''processing'' \<or> status r = ''error'') \<and> no_derived r)"

section \<open>Example data\<close>

text \<open>
  An item as \<open>POST /api/skus\<close> stores it, put in a given status, and an item as a
  successful run of the background processing leaves it.
\<close>

definition item :: "uuid \<Rightarrow> uuid \<Rightarrow> string \<Rightarrow> string \<Rightarrow> sku" where
  "item i c code s =
     \<lparr>skus_id = i, skus_company_id = c, sku_code = code, product_name = ''Shelf'',
      category = ''Other'', status = s, file_url = Some ''/uploads/f.pdf'',
      video_url = None, qr_code_url = None, qr_target_url = None,
      step_count = None, video_duration = None, updated_at = 0\<rparr>"

definition live_item :: "uuid \<Rightarrow> uuid \<Rightarrow> string \<Rightarrow> sku" where
  "live_item i c code =
     \<lparr>skus_id = i, skus_company_id = c, sku_code = code, product_name = ''Shelf'',
      category = ''Other'', status = ''live'', file_url = Some ''/uploads/f.pdf'',
      video_url = Some (''https://storage.assemblyai.app/videos/'' @ i @ ''/assembly.mp4''),
      qr_code_url = Some (''/public/qr/'' @ i @ ''.png''),
      qr_target_url = Some (''https://assemblyai.app/s/'' @ code),
      step_count = Some 6, video_duration = Some 228, updated_at = 0\<rparr>"

definition tables :: "sku list \<Rightarrow> scan list \<Rightarrow> state" where
  "tables items visits =
     \<lparr>skus = items, scans = visits, questions = [], notification_preferences = [], outbox = []\<rparr>"

definition visit :: "uuid \<Rightarrow> uuid \<Rightarrow> string \<Rightarrow> instant \<Rightarrow> scan" where
  "visit i c session t =
     \<lparr>scans_sku_id = i, scans_company_id = c, scans_session_id = session, user_agent = None,
      hour_of_day = 10, completed = False, completion_step = None, rating = None,
      scanned_at = t\<rparr>"

definition surroundings :: "bool \<Rightarrow> bool \<Rightarrow> int \<Rightarrow> uuid \<Rightarrow> env" where
  "surroundings files_ok mail_ok zone fresh =
     \<lparr>QR_BASE_URL = ''https://assemblyai.app/s'', toFile_ok = files_ok, sendMail_ok = mail_ok,
      now = 1704067200000, tza = zone, new_uuid = fresh\<rparr>"

definition trial :: "uuid \<Rightarrow> company" where
  "trial c = \<lparr>companies_id = c, plan = ''trial'', sku_limit = 2\<rparr>"

definition member :: "uuid \<Rightarrow> uuid \<Rightarrow> user" where
  "member u c = \<lparr>users_id = u, users_company_id = c, email = ''owner@example.com''\<rparr>"

definition submission :: "uuid \<Rightarrow> company \<Rightarrow> string \<Rightarrow> create_request" where
  "submission u c code =
     \<lparr>req_user = member u (companies_id c), req_company = c, req_companyId = companies_id c,
      skuCode = Some code, productName = Some ''Shelf'', req_category = None,
      req_file = Some \<lparr>ext = ''.pdf'', bytes = 1000, filename = ''f.pdf''\<rparr>\<rparr>"

section \<open>Quota guard\<close>

lemma liveCount_filter:
  "liveCount cid rows =
     int (length (filter (\<lambda>s. skus_company_id s = cid \<and> status s = ''live'') rows))"
  by (simp add: liveCount_def length_filter_conv_card)

text \<open>
  C4: the quota check counts only the company's items in live status. A limit of -1
  (unlimited) always allows, whatever the count; any other limit denies exactly when
  liveCount >= limit, and the denial is a 403 carrying the current count and the limit.
\<close>

theorem checkSkuLimit_quota:
  "(sku_limit c = - 1 \<longrightarrow> checkSkuLimit c cid rows = Next) \<and>
   (sku_limit c \<noteq> - 1 \<longrightarrow>
      (liveCount cid rows \<ge> sku_limit c \<longrightarrow>
         checkSkuLimit c cid rows =
           Respond (Response 403 (SkuLimitReached (plan c) (liveCount cid rows) (sku_limit c)))) \<and>
      (liveCount cid rows < sku_limit c \<longrightarrow> checkSkuLimit c cid rows = Next))"
  by (simp add: checkSkuLimit_def liveCount_filter Let_def)

text \<open>
  With a limit of 2, two live items, one item still processing and a live item of
  another company, a further creation is denied with count 2 and limit 2; with the
  unlimited sentinel it is allowed; with one live item it is allowed.
\<close>

theorem checkSkuLimit_quota_witness:
  "liveCount ''A'' [live_item ''1'' ''A'' ''X'', item ''2'' ''A'' ''Y'' ''processing'',
                    live_item ''3'' ''B'' ''X'', live_item ''4'' ''A'' ''Z''] = 2 \<and>
   checkSkuLimit (trial ''A'') ''A''
     [live_item ''1'' ''A'' ''X'', item ''2'' ''A'' ''Y'' ''processing'',
      live_item ''3'' ''B'' ''X'', live_item ''4'' ''A'' ''Z''] =
     Respond (Response 403 (SkuLimitReached ''trial'' 2 2)) \<and>
   checkSkuLimit ((trial ''A'')\<lparr>sku_limit := - 1\<rparr>) ''A''
     [live_item ''1'' ''A'' ''X'', item ''2'' ''A'' ''Y'' ''processing'',
      live_item ''3'' ''B'' ''X'', live_item ''4'' ''A'' ''Z''] = Next \<and>
   checkSkuLimit (trial ''A'') ''A''
     [live_item ''1'' ''A'' ''X'', item ''2'' ''A'' ''Y'' ''processing'',
      live_item ''3'' ''B'' ''X''] = Next"
  using checkSkuLimit_quota [of "trial ''A''" "''A''"
          "[live_item ''1'' ''A'' ''X'', item ''2'' ''A'' ''Y'' ''processing'',
            live_item ''3'' ''B'' ''X'', live_item ''4'' ''A'' ''Z'']"]
        checkSkuLimit_quota [of "(trial ''A'')\<lparr>sku_limit := - 1\<rparr>" "''A''"
          "[live_item ''1'' ''A'' ''X'', item ''2'' ''A'' ''Y'' ''processing'',
            live_item ''3'' ''B'' ''X'', live_item ''4'' ''A'' ''Z'']"]
        checkSkuLimit_quota [of "trial ''A''" "''A''"
          "[live_item ''1'' ''A'' ''X'', item ''2'' ''A'' ''Y'' ''processing'',
            live_item ''3'' ''B'' ''X'']"]
  by (simp add: liveCount_filter trial_def live_item_def item_def)

section \<open>Upload limit and period names\<close>

text \<open>
  A file one byte under 50MB passes the upload, a file of exactly 50MB is answered 400,
  and a file of another type is answered 500.
\<close>

lemma upload_limit:
  "upload (Some \<lparr>ext = ''.pdf'', bytes = 52428799, filename = ''f.pdf''\<rparr>) =
     Inr (Some \<lparr>ext = ''.pdf'', bytes = 52428799, filename = ''f.pdf''\<rparr>) \<and>
   upload (Some \<lparr>ext = ''.pdf'', bytes = 52428800, filename = ''f.pdf''\<rparr>) =
     Inl (Response 400 FileTooLarge) \<and>
   upload (Some \<lparr>ext = ''.exe'', bytes = 1000, filename = ''f.exe''\<rparr>) =
     Inl (Response 500 (Error ''Internal server error''))"
  by (simp add: upload_def)

text \<open>
  A period that is no preset means no filter and buckets by month; a period that names
  what every object inherits is answered 500.
\<close>

lemma get_scans_periods:
  "get_scans e (tables [] []) c (Some ''all'') = Response 200 (Series []) \<and>
   get_scans e (tables [] []) c (Some ''constructor'') =
     Response 500 (Error ''Failed to fetch scan data'') \<and>
   get_scans e (tables [] []) c (Some ''__proto__'') =
     Response 500 (Error ''Failed to fetch scan data'')"
  by (simp add: get_scans_def getStartDate_def period_days_def inherited_name_def falsy_def
        tables_def groupScans_def)

section \<open>Facts about the single-row read\<close>

lemma single_Some_iff: "single xs = Some r \<longleftrightarrow> xs = [r]"
  by (cases xs; cases "tl xs") (auto simp: single_def)

lemma single_filter_empty: "\<forall>x \<in> set xs. \<not> P x \<Longrightarrow> single (filter P xs) = None"
  by (simp add: single_def filter_False del: Ball_set)

lemma single_filter_two:
  assumes "a \<in> set xs" "b \<in> set xs" "a \<noteq> b" "P a" "P b"
  shows "single (filter P xs) = None"
proof (cases "single (filter P xs)")
  case (Some r)
  then have "filter P xs = [r]"
    by (simp add: single_Some_iff)
  then have "set (filter P xs) = {r}"
    by simp
  with assms have "a = r" "b = r"
    by auto
  with assms(3) show ?thesis
    by simp
qed simp

lemma single_map: "single (map g xs) = map_option g (single xs)"
  by (cases xs; cases "tl xs") (auto simp: single_def)

section \<open>Duplicate codes on creation\<close>


text \<open>Creation keeps the constraint \<open>unique(company_id, sku_code)\<close>.\<close>

lemma post_skus_keeps_unique:
  assumes "distinct (map (\<lambda>s. (skus_company_id s, sku_code s)) (skus st))"
  shows "distinct (map (\<lambda>s. (skus_company_id s, sku_code s)) (skus (fst (snd (post_skus e st req)))))"
  using assms
  by (auto simp: post_skus_def create_handler_def insert_sku_def image_iff
           split: middleware.splits sum.splits option.splits if_splits)




section \<open>Step count and duration of a successful run\<close>






section \<open>The item invariant over the operations\<close>

text \<open>Creation stores a consistent item and touches no other.\<close>

lemma post_skus_consistent:
  assumes "\<forall>r \<in> set (skus st). consistent r"
  shows "\<forall>r \<in> set (skus (fst (snd (post_skus e st req)))). consistent r"
proof -
  have "consistent (new_row e req f)" for f
    by (simp add: consistent_def new_row_def no_derived_def)
  with assms show ?thesis
    by (auto simp: post_skus_def create_handler_def insert_sku_def
             split: middleware.splits sum.splits option.splits if_splits)
qed

text \<open>The recording operations leave the items as they are.\<close>

lemma recording_keeps_items:
  "skus (snd (post_scan e st sc)) = skus st \<and>
   skus (snd (post_complete st co)) = skus st \<and>
   skus (snd (post_question e st qu)) = skus st"
  by (simp add: post_scan_def post_complete_def post_question_def split: option.splits)

text \<open>
  The background processing of an item that is still processing keeps every item
  consistent when the mail transport accepts the message (or no message is due): a
  failure of the code image leaves the item in \<open>error\<close> with no derived field, a
  success leaves it \<open>live\<close> with all of them.
\<close>

lemma background_processing_consistent:
  assumes "\<forall>r \<in> set (skus st). consistent r"
      and "\<forall>r \<in> set (skus st). skus_id r = skus_id sku \<longrightarrow> status r = ''processing''"
      and "sendMail_ok e"
  shows "\<forall>r \<in> set (skus (background_processing e st sku usr file_path)). consistent r"
proof (cases "toFile_ok e")
  case False
  then have "background_processing e st sku usr file_path =
      st\<lparr>skus := map (\<lambda>r. if skus_id r = skus_id sku then r\<lparr>status := ''error''\<rparr> else r) (skus st)\<rparr>"
    by (simp add: background_processing_def processSkuGeneration_def generation_from_steps_def
          generateQRCode_def)
  with assms(1,2) show ?thesis
    by (auto simp: consistent_def no_derived_def)
next
  case True
  with assms(3) have "skus (background_processing e st sku usr file_path) =
      skus (update_to_live e sku
              (generateVideo (skus_id sku) (sku_code sku) (product_name sku) (parseSteps file_path))
              \<lparr>qrCodeUrl = ''/public/qr/'' @ skus_id sku @ ''.png'',
               qrTargetUrl = QR_BASE_URL e @ ''/'' @ sku_code sku\<rparr> st)"
    by (simp add: background_processing_def processSkuGeneration_def generation_from_steps_def
          generateQRCode_def send_notification_def sendQRReadyEmail_def)
  with assms(1) show ?thesis
    by (auto simp: update_to_live_def consistent_def all_derived_def)
qed

text \<open>
  C1: every item is meant to be consistent after each operation. Company A creates item
  X (answered 202, the item consistent and processing); the background processing then
  commits video, duration, step count, code image and target URL with status \<open>live\<close>,
  the mail transport rejects the ready message, and the handler of the rejection sets
  the status to \<open>error\<close>: the item ends in \<open>error\<close> with all five derived fields set.
\<close>

theorem mail_failure_breaks_consistency:
  "post_skus (surroundings True False 0 ''1'') (tables [] []) (submission ''u'' (trial ''A'') ''X'') =
     (Response 202 (SkuCreated ''1'' ''X'' ''Shelf'' ''processing''),
      tables [(item ''1'' ''A'' ''X'' ''processing'')\<lparr>updated_at := 1704067200000\<rparr>] [],
      Some ((item ''1'' ''A'' ''X'' ''processing'')\<lparr>updated_at := 1704067200000\<rparr>)) \<and>
   consistent ((item ''1'' ''A'' ''X'' ''processing'')\<lparr>updated_at := 1704067200000\<rparr>) \<and>
   background_processing (surroundings True False 0 ''1'')
     (tables [(item ''1'' ''A'' ''X'' ''processing'')\<lparr>updated_at := 1704067200000\<rparr>] [])
     ((item ''1'' ''A'' ''X'' ''processing'')\<lparr>updated_at := 1704067200000\<rparr>)
     (member ''u'' ''A'') ''uploads/f.pdf'' =
     tables [(live_item ''1'' ''A'' ''X'')\<lparr>status := ''error'', updated_at := 1704067200000\<rparr>] [] \<and>
   status ((live_item ''1'' ''A'' ''X'')\<lparr>status := ''error'', updated_at := 1704067200000\<rparr>) = ''error'' \<and>
   all_derived ((live_item ''1'' ''A'' ''X'')\<lparr>status := ''error'', updated_at := 1704067200000\<rparr>) \<and>
   \<not> consistent ((live_item ''1'' ''A'' ''X'')\<lparr>status := ''error'', updated_at := 1704067200000\<rparr>)"
proof -
  have created: "post_skus (surroundings True False 0 ''1'') (tables [] [])
       (submission ''u'' (trial ''A'') ''X'') =
     (Response 202 (SkuCreated ''1'' ''X'' ''Shelf'' ''processing''),
      tables [(item ''1'' ''A'' ''X'' ''processing'')\<lparr>updated_at := 1704067200000\<rparr>] [],
      Some ((item ''1'' ''A'' ''X'' ''processing'')\<lparr>updated_at := 1704067200000\<rparr>))"
    by (simp add: post_skus_def checkSkuLimit_def upload_def create_handler_def falsy_def
          single_def insert_sku_def new_row_def submission_def trial_def surroundings_def
          tables_def item_def)
  have processed: "background_processing (surroundings True False 0 ''1'')
     (tables [(item ''1'' ''A'' ''X'' ''processing'')\<lparr>updated_at := 1704067200000\<rparr>] [])
     ((item ''1'' ''A'' ''X'' ''processing'')\<lparr>updated_at := 1704067200000\<rparr>)
     (member ''u'' ''A'') ''uploads/f.pdf'' =
     tables [(live_item ''1'' ''A'' ''X'')\<lparr>status := ''error'', updated_at := 1704067200000\<rparr>] []"
    by (simp add: background_processing_def processSkuGeneration_def generation_from_steps_def
          generateQRCode_def generateVideo_def parseSteps_def update_to_live_def
          send_notification_def sendQRReadyEmail_def single_def surroundings_def tables_def
          item_def live_item_def member_def)
  show ?thesis
    unfolding created processed
    by (simp add: consistent_def all_derived_def no_derived_def item_def live_item_def)
qed

section \<open>Notification failures\<close>

text \<open>
  Reading the preference row cannot reject the run: without a row (or with several)
  the mail is due as by default. Whenever the code image is written, the mail is due and
  the transport rejects it, the run has committed \<open>live\<close> and then rejects, and the
  handler of the rejection sets \<open>error\<close> on the item's rows.
\<close>

lemma mail_failure_marks_error:
  assumes "toFile_ok e" and "\<not> sendMail_ok e"
      and "case single (filter (\<lambda>p. preferences_user_id p = users_id usr)
                          (notification_preferences st)) of
             None \<Rightarrow> True | Some p \<Rightarrow> qr_ready p = Some True"
      and "r \<in> set (skus st)" and "skus_id r = skus_id sku"
  shows "fst (processSkuGeneration e st sku usr file_path) = Some MailFailed \<and>
         (\<forall>x \<in> set (skus (snd (processSkuGeneration e st sku usr file_path))).
             skus_id x = skus_id sku \<longrightarrow> status x = ''live'') \<and>
         (\<forall>x \<in> set (skus (background_processing e st sku usr file_path)).
             skus_id x = skus_id sku \<longrightarrow> status x = ''error'' \<and> all_derived x) \<and>
         (\<exists>x \<in> set (skus (background_processing e st sku usr file_path)). skus_id x = skus_id sku)"
proof -
  let ?live = "update_to_live e sku
     (generateVideo (skus_id sku) (sku_code sku) (product_name sku) (parseSteps file_path))
     \<lparr>qrCodeUrl = ''/public/qr/'' @ skus_id sku @ ''.png'',
      qrTargetUrl = QR_BASE_URL e @ ''/'' @ sku_code sku\<rparr> st"
  have prefs: "notification_preferences ?live = notification_preferences st"
    by (simp add: update_to_live_def)
  have due: "case single (filter (\<lambda>p. preferences_user_id p = users_id usr)
                             (notification_preferences ?live)) of
               None \<Rightarrow> True | Some p \<Rightarrow> qr_ready p = Some True"
    using assms(3) by (simp only: prefs)
  have run: "processSkuGeneration e st sku usr file_path = (Some MailFailed, ?live)"
    using assms(1,2) due
    by (simp add: processSkuGeneration_def generation_from_steps_def generateQRCode_def
          send_notification_def sendQRReadyEmail_def)
  then have bg: "background_processing e st sku usr file_path =
      ?live\<lparr>skus := map (\<lambda>r. if skus_id r = skus_id sku then r\<lparr>status := ''error''\<rparr> else r)
                       (skus ?live)\<rparr>"
    by (simp add: background_processing_def)
  define rows where "rows = skus ?live"
  have live: "\<forall>x \<in> set rows. skus_id x = skus_id sku \<longrightarrow> status x = ''live'' \<and> all_derived x"
    unfolding rows_def by (auto simp: update_to_live_def all_derived_def)
  have "map skus_id rows = map skus_id (skus st)"
    unfolding rows_def by (induction "skus st") (simp_all add: update_to_live_def)
  then have "skus_id sku \<in> skus_id ` set rows"
    using assms(4,5) by (metis image_eqI list.set_map)
  then have there: "\<exists>x \<in> set rows. skus_id x = skus_id sku"
    by auto
  have after: "skus (background_processing e st sku usr file_path) =
      map (\<lambda>r. if skus_id r = skus_id sku then r\<lparr>status := ''error''\<rparr> else r) rows"
    by (simp add: bg rows_def)
  have "\<forall>x \<in> set (skus (background_processing e st sku usr file_path)).
          skus_id x = skus_id sku \<longrightarrow> status x = ''error'' \<and> all_derived x"
    unfolding after using live by (auto simp: all_derived_def)
  moreover have "map skus_id (skus (background_processing e st sku usr file_path)) =
          map skus_id rows"
    unfolding after by (induction rows) simp_all
  then have "\<exists>x \<in> set (skus (background_processing e st sku usr file_path)).
          skus_id x = skus_id sku"
    using there by (metis (no_types, lifting) image_iff list.set_map)
  moreover have "\<forall>x \<in> set (skus (snd (processSkuGeneration e st sku usr file_path))).
          skus_id x = skus_id sku \<longrightarrow> status x = ''live''"
    using live by (simp add: run rows_def)
  ultimately show ?thesis
    by (simp add: run)
qed

text \<open>
  C2: a failure to deliver the ready mail after the commit is meant to leave the item
  \<open>live\<close>. For company A's item X, with the code image written and the mail transport
  rejecting the message: \<open>processSkuGeneration\<close> commits \<open>live\<close> and rejects with the
  mail failure, and the background processing as a whole leaves the item in \<open>error\<close>.
\<close>

theorem mail_failure_reverts_live:
  "processSkuGeneration (surroundings True False 0 ''1'')
     (tables [item ''1'' ''A'' ''X'' ''processing''] []) (item ''1'' ''A'' ''X'' ''processing'')
     (member ''u'' ''A'') ''uploads/f.pdf'' =
     (Some MailFailed, tables [(live_item ''1'' ''A'' ''X'')\<lparr>updated_at := 1704067200000\<rparr>] []) \<and>
   map status (skus (tables [(live_item ''1'' ''A'' ''X'')\<lparr>updated_at := 1704067200000\<rparr>] [])) =
     [''live''] \<and>
   map status (skus (background_processing (surroundings True False 0 ''1'')
                       (tables [item ''1'' ''A'' ''X'' ''processing''] [])
                       (item ''1'' ''A'' ''X'' ''processing'') (member ''u'' ''A'')
                       ''uploads/f.pdf'')) =
     [''error''] \<and>
   map status (skus (background_processing (surroundings True True 0 ''1'')
                       (tables [item ''1'' ''A'' ''X'' ''processing''] [])
                       (item ''1'' ''A'' ''X'' ''processing'') (member ''u'' ''A'')
                       ''uploads/f.pdf'')) =
     [''live'']"
proof -
  have run: "processSkuGeneration (surroundings True mail_ok 0 ''1'')
     (tables [item ''1'' ''A'' ''X'' ''processing''] []) (item ''1'' ''A'' ''X'' ''processing'')
     (member ''u'' ''A'') ''uploads/f.pdf'' =
     (if mail_ok
      then (None,
            (tables [(live_item ''1'' ''A'' ''X'')\<lparr>updated_at := 1704067200000\<rparr>] [])
              \<lparr>outbox := [\<lparr>mail_to = ''owner@example.com'', mail_productName = ''Shelf'',
                           mail_skuCode = ''X'', mail_qrCodeUrl = ''/public/qr/1.png'',
                           mail_qrTargetUrl = ''https://assemblyai.app/s/X''\<rparr>]\<rparr>)
      else (Some MailFailed,
            tables [(live_item ''1'' ''A'' ''X'')\<lparr>updated_at := 1704067200000\<rparr>] []))"
    for mail_ok
    by (simp add: processSkuGeneration_def generation_from_steps_def
          generateQRCode_def generateVideo_def parseSteps_def update_to_live_def
          send_notification_def sendQRReadyEmail_def single_def surroundings_def tables_def
          item_def live_item_def member_def)
  show ?thesis
    by (simp add: background_processing_def run) (simp add: tables_def live_item_def item_def)
qed

section \<open>Status reader\<close>

text \<open>
  C6: a status poll for an item that does not exist, or that belongs to another company,
  is answered 404 with the same body; and what a company is answered is computed from its
  own rows alone, so the answer cannot tell an absent item from another company's.
\<close>

theorem get_status_not_found:
  "((\<forall>s \<in> set (skus st). skus_id s \<noteq> i) \<longrightarrow>
      get_status st i c = Response 404 (Error ''SKU not found'')) \<and>
   ((\<forall>s \<in> set (skus st). skus_id s = i \<longrightarrow> skus_company_id s \<noteq> c) \<longrightarrow>
      get_status st i c = Response 404 (Error ''SKU not found'')) \<and>
   get_status st i c =
     get_status (st\<lparr>skus := filter (\<lambda>s. skus_company_id s = c) (skus st)\<rparr>) i c"
proof (intro conjI impI)
  assume "\<forall>s \<in> set (skus st). skus_id s \<noteq> i"
  then have "single (filter (\<lambda>s. skus_id s = i \<and> skus_company_id s = c) (skus st)) = None"
    by (intro single_filter_empty) simp
  then show "get_status st i c = Response 404 (Error ''SKU not found'')"
    by (simp add: get_status_def)
next
  assume "\<forall>s \<in> set (skus st). skus_id s = i \<longrightarrow> skus_company_id s \<noteq> c"
  then have "single (filter (\<lambda>s. skus_id s = i \<and> skus_company_id s = c) (skus st)) = None"
    by (intro single_filter_empty) simp
  then show "get_status st i c = Response 404 (Error ''SKU not found'')"
    by (simp add: get_status_def)
next
  have "filter (\<lambda>s. skus_id s = i \<and> skus_company_id s = c)
          (filter (\<lambda>s. skus_company_id s = c) (skus st)) =
        filter (\<lambda>s. skus_id s = i \<and> skus_company_id s = c) (skus st)"
    by (auto simp: filter_filter intro!: filter_cong)
  then show "get_status st i c =
     get_status (st\<lparr>skus := filter (\<lambda>s. skus_company_id s = c) (skus st)\<rparr>) i c"
    by (simp add: get_status_def)
qed

text \<open>
  Company A polls an item of company B, an unknown id, and an empty table: the same 404
  each time, while B itself is answered 200.
\<close>

theorem get_status_not_found_witness:
  "get_status (tables [live_item ''1'' ''B'' ''X''] []) ''1'' ''A'' =
     Response 404 (Error ''SKU not found'') \<and>
   get_status (tables [live_item ''1'' ''B'' ''X''] []) ''9'' ''A'' =
     Response 404 (Error ''SKU not found'') \<and>
   get_status (tables [] []) ''1'' ''A'' = Response 404 (Error ''SKU not found'') \<and>
   status_code (get_status (tables [live_item ''1'' ''B'' ''X''] []) ''1'' ''B'') = 200"
  using get_status_not_found [of "tables [live_item ''1'' ''B'' ''X''] []" "''1''" "''A''"]
        get_status_not_found [of "tables [live_item ''1'' ''B'' ''X''] []" "''9''" "''A''"]
  by (simp add: tables_def live_item_def get_status_def single_def)

section \<open>Completion events\<close>

lemma latest_scan_none:
  assumes "\<forall>c \<in> set rows. \<not> of_session k ses c"
  shows "latest_scan k ses rows = []"
proof -
  have "filter (\<lambda>i. of_session k ses (rows ! i)) [0..<length rows] = []"
    using assms by (auto simp: filter_empty_conv)
  then show ?thesis
    by (simp add: latest_scan_def)
qed

lemma latest_scan_some:
  assumes "\<exists>c \<in> set rows. of_session k ses c"
  shows "\<exists>i < length rows. latest_scan k ses rows = [i] \<and> of_session k ses (rows ! i) \<and>
           (\<forall>j < length rows. of_session k ses (rows ! j) \<longrightarrow>
               scanned_at (rows ! j) \<le> scanned_at (rows ! i))"
proof -
  define cands where "cands = filter (\<lambda>i. of_session k ses (rows ! i)) [0..<length rows]"
  define xs where "xs = sort_key (\<lambda>i. - scanned_at (rows ! i)) cands"
  from assms obtain n where "n < length rows" "of_session k ses (rows ! n)"
    by (auto simp: in_set_conv_nth)
  then have "n \<in> set cands"
    by (simp add: cands_def)
  then have "xs \<noteq> []"
    by (auto simp: xs_def dest: arg_cong [where f = set])
  then obtain i rest where xs: "xs = i # rest"
    by (cases xs) auto
  have set_xs: "set xs = set cands"
    by (simp add: xs_def)
  have "sorted (map (\<lambda>i. - scanned_at (rows ! i)) xs)"
    by (simp add: xs_def)
  with xs have least: "\<forall>j \<in> set xs. - scanned_at (rows ! i) \<le> - scanned_at (rows ! j)"
    by auto
  have i: "i \<in> set cands"
    using xs set_xs by auto
  have "latest_scan k ses rows = [i]"
    using xs by (simp add: latest_scan_def xs_def cands_def)
  moreover have "i < length rows" "of_session k ses (rows ! i)"
    using i by (simp_all add: cands_def)
  moreover have "\<forall>j < length rows. of_session k ses (rows ! j) \<longrightarrow>
                   scanned_at (rows ! j) \<le> scanned_at (rows ! i)"
  proof (intro allI impI)
    fix j assume "j < length rows" "of_session k ses (rows ! j)"
    then have "j \<in> set xs"
      by (simp add: set_xs cands_def)
    with least show "scanned_at (rows ! j) \<le> scanned_at (rows ! i)"
      by auto
  qed
  ultimately show ?thesis
    by blast
qed

text \<open>No completion event adds a scan row, whether its code resolves or not.\<close>

lemma post_complete_no_new_row:
  "length (scans (snd (post_complete st req))) = length (scans st)"
proof -
  have "length (update_rows sel g rows) = length rows" for sel g and rows :: "scan list"
    unfolding update_rows_def by (induction sel arbitrary: rows) simp_all
  then show ?thesis
    by (simp add: post_complete_def split: option.splits)
qed

text \<open>The values an integer column takes.\<close>

lemma int4_bounds:
  "int4 2147483647 \<and> \<not> int4 2147483648 \<and> int4 (- 2147483648) \<and> \<not> int4 (- 2147483649)"
  by (simp add: int4_def)

text \<open>
  Item X has a scan of session s1. A completion for s1 whose rating does not fit the
  integer column is answered with success, and the scan is left as it was, not
  completed.
\<close>

theorem completion_out_of_range_counterexample:
  "of_session (skus_id (live_item ''1'' ''A'' ''X'')) ''s1'' (visit ''1'' ''A'' ''s1'' 100) \<and>
   \<not> completed (visit ''1'' ''A'' ''s1'' 100) \<and>
   post_complete (tables [live_item ''1'' ''A'' ''X''] [visit ''1'' ''A'' ''s1'' 100])
     \<lparr>complete_skuCode = ''X'', complete_sessionId = ''s1'', completionStep = Given 6,
      complete_rating = Given 2147483648\<rparr> =
     (Response 200 Success,
      tables [live_item ''1'' ''A'' ''X''] [visit ''1'' ''A'' ''s1'' 100])"
  by (simp add: post_complete_def accepted_def int4_def single_def of_session_def
        tables_def live_item_def visit_def)

text \<open>
  C3, amended: a completion event whose code resolves to an item is answered with
  success and creates no row: the items, the questions and the number of scans stay as
  they were. If the completion step or the rating it carries does not fit the 32-bit
  integer columns, or the item has no scan of that session, nothing changes at all.
  Otherwise exactly one row changes, a scan of that item and session whose timestamp is
  the latest among them: its completed flag is set, its completion step becomes the one
  given (null when null is given, as it was when the request carries none), its rating
  becomes the one given (null when it is missing, null or zero), and its other columns
  stay.
\<close>

theorem completion_updates_latest_scan:
  assumes "single (filter (\<lambda>s. sku_code s = complete_skuCode req) (skus st)) = Some s"
  shows "fst (post_complete st req) = Response 200 Success \<and>
         skus (snd (post_complete st req)) = skus st \<and>
         questions (snd (post_complete st req)) = questions st \<and>
         length (scans (snd (post_complete st req))) = length (scans st) \<and>
         (\<not> accepted req \<longrightarrow> snd (post_complete st req) = st) \<and>
         ((\<forall>c \<in> set (scans st). \<not> of_session (skus_id s) (complete_sessionId req) c) \<longrightarrow>
            snd (post_complete st req) = st) \<and>
         (accepted req \<and>
          (\<exists>c \<in> set (scans st). of_session (skus_id s) (complete_sessionId req) c) \<longrightarrow>
            (\<exists>i < length (scans st).
               of_session (skus_id s) (complete_sessionId req) (scans st ! i) \<and>
               (\<forall>j < length (scans st).
                  of_session (skus_id s) (complete_sessionId req) (scans st ! j) \<longrightarrow>
                  scanned_at (scans st ! j) \<le> scanned_at (scans st ! i)) \<and>
               scans (snd (post_complete st req)) =
                 (scans st)
                   [i := (scans st ! i)
                      \<lparr>completed := True,
                       completion_step :=
                         (case completionStep req of
                            Undefined \<Rightarrow> completion_step (scans st ! i)
                          | Null \<Rightarrow> None
                          | Given n \<Rightarrow> Some n),
                       rating :=
                         (case complete_rating req of
                            Undefined \<Rightarrow> None
                          | Null \<Rightarrow> None
                          | Given n \<Rightarrow> (if n = 0 then None else Some n))\<rparr>]))"
proof -
  have post: "post_complete st req =
      (Response 200 Success,
       if accepted req
       then st\<lparr>scans := update_rows (latest_scan (skus_id s) (complete_sessionId req) (scans st))
                           (completion req) (scans st)\<rparr>
       else st)"
    using assms by (simp add: post_complete_def)
  have len: "length (update_rows sel g rows) = length rows" for sel g and rows :: "scan list"
    unfolding update_rows_def by (induction sel arbitrary: rows) simp_all
  have payload: "completion req row =
      row\<lparr>completed := True,
          completion_step :=
            (case completionStep req of
               Undefined \<Rightarrow> completion_step row
             | Null \<Rightarrow> None
             | Given n \<Rightarrow> Some n),
          rating :=
            (case complete_rating req of
               Undefined \<Rightarrow> None
             | Null \<Rightarrow> None
             | Given n \<Rightarrow> (if n = 0 then None else Some n))\<rparr>" for row
    by (simp add: completion_def split: field.splits)
  have none: "snd (post_complete st req) = st"
    if "\<forall>c \<in> set (scans st). \<not> of_session (skus_id s) (complete_sessionId req) c"
    using latest_scan_none [OF that] by (simp add: post update_rows_def)
  have some: "\<exists>i < length (scans st).
               of_session (skus_id s) (complete_sessionId req) (scans st ! i) \<and>
               (\<forall>j < length (scans st).
                  of_session (skus_id s) (complete_sessionId req) (scans st ! j) \<longrightarrow>
                  scanned_at (scans st ! j) \<le> scanned_at (scans st ! i)) \<and>
               scans (snd (post_complete st req)) =
                 (scans st)[i := completion req (scans st ! i)]"
    if "accepted req" "\<exists>c \<in> set (scans st). of_session (skus_id s) (complete_sessionId req) c"
  proof -
    from latest_scan_some [OF that(2)] obtain i where
      "i < length (scans st)"
      "latest_scan (skus_id s) (complete_sessionId req) (scans st) = [i]"
      "of_session (skus_id s) (complete_sessionId req) (scans st ! i)"
      "\<forall>j < length (scans st). of_session (skus_id s) (complete_sessionId req) (scans st ! j) \<longrightarrow>
          scanned_at (scans st ! j) \<le> scanned_at (scans st ! i)"
      by blast
    with that(1) show ?thesis
      by (intro exI [of _ i]) (simp add: post update_rows_def)
  qed
  have refused: "snd (post_complete st req) = st" if "\<not> accepted req"
    using that by (simp add: post)
  show ?thesis
    using none some refused unfolding payload by (simp add: post len)
qed

text \<open>
  Item X has three scans of session s1 (at 100, 300 and 200) and one of session s2 (at
  500). A completion for s1 with step 6 and rating 5 changes the scan at 300 and nothing
  else: it becomes completed with step 6 and rating 5. A completion for an unknown
  session s9 changes nothing and is answered with success.
\<close>

theorem completion_updates_latest_scan_witness:
  "post_complete
     (tables [live_item ''1'' ''A'' ''X'']
        [visit ''1'' ''A'' ''s1'' 100, visit ''1'' ''A'' ''s1'' 300,
         visit ''1'' ''A'' ''s2'' 500, visit ''1'' ''A'' ''s1'' 200])
     \<lparr>complete_skuCode = ''X'', complete_sessionId = ''s1'', completionStep = Given 6,
      complete_rating = Given 5\<rparr> =
     (Response 200 Success,
      tables [live_item ''1'' ''A'' ''X'']
        [visit ''1'' ''A'' ''s1'' 100,
         (visit ''1'' ''A'' ''s1'' 300)
           \<lparr>completed := True, completion_step := Some 6, rating := Some 5\<rparr>,
         visit ''1'' ''A'' ''s2'' 500, visit ''1'' ''A'' ''s1'' 200]) \<and>
   post_complete
     (tables [live_item ''1'' ''A'' ''X'']
        [visit ''1'' ''A'' ''s1'' 100, visit ''1'' ''A'' ''s1'' 300,
         visit ''1'' ''A'' ''s2'' 500, visit ''1'' ''A'' ''s1'' 200])
     \<lparr>complete_skuCode = ''X'', complete_sessionId = ''s9'', completionStep = Given 6,
      complete_rating = Given 5\<rparr> =
     (Response 200 Success,
      tables [live_item ''1'' ''A'' ''X'']
        [visit ''1'' ''A'' ''s1'' 100, visit ''1'' ''A'' ''s1'' 300,
         visit ''1'' ''A'' ''s2'' 500, visit ''1'' ''A'' ''s1'' 200])"
proof -
  let ?rows = "[visit ''1'' ''A'' ''s1'' 100, visit ''1'' ''A'' ''s1'' 300,
         visit ''1'' ''A'' ''s2'' 500, visit ''1'' ''A'' ''s1'' 200]"
  let ?st = "tables [live_item ''1'' ''A'' ''X''] ?rows"
  let ?r1 = "\<lparr>complete_skuCode = ''X'', complete_sessionId = ''s1'', completionStep = Given 6,
      complete_rating = Given 5\<rparr>"
  let ?r9 = "\<lparr>complete_skuCode = ''X'', complete_sessionId = ''s9'', completionStep = Given 6,
      complete_rating = Given 5\<rparr>"
  have res: "single (filter (\<lambda>s. sku_code s = complete_skuCode r) (skus ?st)) =
               Some (live_item ''1'' ''A'' ''X'')"
    if "complete_skuCode r = ''X''" for r
    using that by (simp add: single_def tables_def live_item_def)
  have ok: "accepted ?r1"
    by (simp add: accepted_def int4_def)
  have none: "\<forall>c \<in> set (scans ?st). \<not> of_session (skus_id (live_item ''1'' ''A'' ''X''))
                 (complete_sessionId ?r9) c"
    by (simp add: tables_def visit_def of_session_def)
  from completion_updates_latest_scan [OF res, of ?r9] none
  have nine: "post_complete ?st ?r9 = (Response 200 Success, ?st)"
    by (simp add: prod_eq_iff)
  have there: "\<exists>c \<in> set (scans ?st). of_session (skus_id (live_item ''1'' ''A'' ''X''))
                 (complete_sessionId ?r1) c"
    by (simp add: tables_def visit_def of_session_def live_item_def)
  from completion_updates_latest_scan [OF res, of ?r1] ok there
  obtain i where i: "i < length (scans ?st)"
      "of_session (skus_id (live_item ''1'' ''A'' ''X'')) (complete_sessionId ?r1) (scans ?st ! i)"
      "\<forall>j < length (scans ?st).
          of_session (skus_id (live_item ''1'' ''A'' ''X'')) (complete_sessionId ?r1) (scans ?st ! j) \<longrightarrow>
          scanned_at (scans ?st ! j) \<le> scanned_at (scans ?st ! i)"
      "scans (snd (post_complete ?st ?r1)) =
         (scans ?st)[i := (scans ?st ! i)\<lparr>completed := True, completion_step := Some 6,
                                           rating := Some 5\<rparr>]"
      and head: "fst (post_complete ?st ?r1) = Response 200 Success"
      and rest: "skus (snd (post_complete ?st ?r1)) = skus ?st"
                "questions (snd (post_complete ?st ?r1)) = questions ?st"
    by auto
  have latest: "of_session ''1'' ''s1'' (?rows ! 1)" "(1 :: nat) < length ?rows"
    by (simp_all add: of_session_def visit_def)
  have "i = 1"
  proof -
    from i(1) have "i = 0 \<or> i = 1 \<or> i = 2 \<or> i = 3"
      by (auto simp: tables_def)
    moreover from i(3) latest have "scanned_at (?rows ! 1) \<le> scanned_at (?rows ! i)"
      by (auto simp: tables_def live_item_def)
    ultimately show ?thesis
      using i(2) by (auto simp: visit_def of_session_def tables_def live_item_def)
  qed
  with i(4) have "scans (snd (post_complete ?st ?r1)) =
      [visit ''1'' ''A'' ''s1'' 100,
       (visit ''1'' ''A'' ''s1'' 300)\<lparr>completed := True, completion_step := Some 6, rating := Some 5\<rparr>,
       visit ''1'' ''A'' ''s2'' 500, visit ''1'' ''A'' ''s1'' 200]"
    by (simp add: tables_def)
  moreover have "outbox (snd (post_complete ?st ?r1)) = outbox ?st"
       "notification_preferences (snd (post_complete ?st ?r1)) = notification_preferences ?st"
    by (simp_all add: post_complete_def split: option.splits)
  ultimately have "snd (post_complete ?st ?r1) =
      tables [live_item ''1'' ''A'' ''X'']
        [visit ''1'' ''A'' ''s1'' 100,
         (visit ''1'' ''A'' ''s1'' 300)\<lparr>completed := True, completion_step := Some 6, rating := Some 5\<rparr>,
         visit ''1'' ''A'' ''s2'' 500, visit ''1'' ''A'' ''s1'' 200]"
    using rest by (intro state.equality) (simp_all add: tables_def)
  with head nine show ?thesis
    by (simp add: prod_eq_iff)
qed

section \<open>Public lookups by code\<close>

text \<open>
  The four public lookups do not read the company of an item: their answers stay the
  same when the items are given to other companies.
\<close>

lemma public_lookups_ignore_company:
  "fst (post_scan e (st\<lparr>skus := map (\<lambda>s. s\<lparr>skus_company_id := owner s\<rparr>) (skus st)\<rparr>) sc) =
     fst (post_scan e st sc) \<and>
   fst (post_complete (st\<lparr>skus := map (\<lambda>s. s\<lparr>skus_company_id := owner s\<rparr>) (skus st)\<rparr>) co) =
     fst (post_complete st co) \<and>
   fst (post_question e (st\<lparr>skus := map (\<lambda>s. s\<lparr>skus_company_id := owner s\<rparr>) (skus st)\<rparr>) qu) =
     fst (post_question e st qu) \<and>
   get_guide (st\<lparr>skus := map (\<lambda>s. s\<lparr>skus_company_id := owner s\<rparr>) (skus st)\<rparr>) code =
     get_guide st code"
proof -
  have f: "filter P (map (\<lambda>s. s\<lparr>skus_company_id := owner s\<rparr>) xs) =
           map (\<lambda>s. s\<lparr>skus_company_id := owner s\<rparr>) (filter (\<lambda>s. P (s\<lparr>skus_company_id := owner s\<rparr>)) xs)"
    for P and xs :: "sku list"
    by (simp add: filter_map comp_def)
  show ?thesis
    by (simp add: post_scan_def post_complete_def post_question_def get_guide_def f single_map
             split: option.splits)
qed

text \<open>
  C9: the four public lookups (scan, completion, question, consumer page) resolve the
  code over the whole table with a single-row read. In any state where two companies
  each have a live item with the same code, all four answer 404 and change nothing.
\<close>

theorem public_lookups_shared_code:
  assumes "a \<in> set (skus st)" and "b \<in> set (skus st)"
      and "skus_company_id a \<noteq> skus_company_id b"
      and "sku_code a = code" and "sku_code b = code"
      and "status a = ''live''" and "status b = ''live''"
      and "code \<noteq> ''''"
      and "scan_skuCode sc = Some code"
      and "complete_skuCode co = code"
      and "question_skuCode qu = Some code" and "\<not> falsy (questionText qu)"
  shows "post_scan e st sc = (Response 404 (Error ''SKU not found''), st) \<and>
         post_complete st co = (Response 404 (Error ''SKU not found''), st) \<and>
         post_question e st qu = (Response 404 (Error ''SKU not found''), st) \<and>
         get_guide st code = Response 404 NotFoundPage"
proof -
  from assms(3) have ne: "a \<noteq> b"
    by auto
  have live: "single (filter (\<lambda>s. sku_code s = code \<and> status s = ''live'') (skus st)) = None"
    using assms(1,2) ne assms(4-7) by (intro single_filter_two [of a _ b]) auto
  have any: "single (filter (\<lambda>s. sku_code s = code) (skus st)) = None"
    using assms(1,2) ne assms(4,5) by (intro single_filter_two [of a _ b]) auto
  show ?thesis
    using live any assms(8-12)
    by (simp add: post_scan_def post_complete_def post_question_def get_guide_def falsy_def)
qed

text \<open>
  Companies A and B each have a live item with code X: the four calls answer 404, while
  with either item alone in the table the page is served.
\<close>

theorem public_lookups_shared_code_witness:
  "post_scan (surroundings True True 0 ''n'')
     (tables [live_item ''1'' ''A'' ''X'', live_item ''2'' ''B'' ''X''] [])
     \<lparr>scan_skuCode = Some ''X'', scan_sessionId = Some ''s1'', scan_userAgent = None\<rparr> =
     (Response 404 (Error ''SKU not found''),
      tables [live_item ''1'' ''A'' ''X'', live_item ''2'' ''B'' ''X''] []) \<and>
   post_complete (tables [live_item ''1'' ''A'' ''X'', live_item ''2'' ''B'' ''X''] [])
     \<lparr>complete_skuCode = ''X'', complete_sessionId = ''s1'', completionStep = Undefined,
      complete_rating = Given 5\<rparr> =
     (Response 404 (Error ''SKU not found''),
      tables [live_item ''1'' ''A'' ''X'', live_item ''2'' ''B'' ''X''] []) \<and>
   post_question (surroundings True True 0 ''n'')
     (tables [live_item ''1'' ''A'' ''X'', live_item ''2'' ''B'' ''X''] [])
     \<lparr>question_skuCode = Some ''X'', question_sessionId = Some ''s1'',
      questionText = Some ''Which screw?'', question_stepNumber = None\<rparr> =
     (Response 404 (Error ''SKU not found''),
      tables [live_item ''1'' ''A'' ''X'', live_item ''2'' ''B'' ''X''] []) \<and>
   get_guide (tables [live_item ''1'' ''A'' ''X'', live_item ''2'' ''B'' ''X''] []) ''X'' =
     Response 404 NotFoundPage \<and>
   get_guide (tables [live_item ''1'' ''A'' ''X''] []) ''X'' =
     Response 200 (GuidePage ''X'' ''Shelf'' (Some 6) (Some 228)) \<and>
   get_guide (tables [live_item ''2'' ''B'' ''X''] []) ''X'' =
     Response 200 (GuidePage ''X'' ''Shelf'' (Some 6) (Some 228))"
proof -
  have "live_item ''1'' ''A'' ''X'' \<in> set (skus (tables [live_item ''1'' ''A'' ''X'', live_item ''2'' ''B'' ''X''] []))"
       "live_item ''2'' ''B'' ''X'' \<in> set (skus (tables [live_item ''1'' ''A'' ''X'', live_item ''2'' ''B'' ''X''] []))"
    by (simp_all add: tables_def)
  from public_lookups_shared_code [OF this, of "''X''"
         "\<lparr>scan_skuCode = Some ''X'', scan_sessionId = Some ''s1'', scan_userAgent = None\<rparr>"
         "\<lparr>complete_skuCode = ''X'', complete_sessionId = ''s1'', completionStep = Undefined,
           complete_rating = Given 5\<rparr>"
         "\<lparr>question_skuCode = Some ''X'', question_sessionId = Some ''s1'',
           questionText = Some ''Which screw?'', question_stepNumber = None\<rparr>"
         "surroundings True True 0 ''n''"]
  show ?thesis
    by (simp add: live_item_def falsy_def) (simp add: get_guide_def tables_def single_def)
qed

section \<open>Status conditions of the public lookups\<close>




section \<open>Time series\<close>

declare decimal.simps [simp del]

lemma decimal_digit: "n < 10 \<Longrightarrow> decimal n = [digit n]"
  by (subst decimal.simps) simp

lemma decimal_more: "10 \<le> n \<Longrightarrow> decimal n = decimal (n div 10) @ [digit n]"
  by (subst decimal.simps) simp

lemmas calendar =
  Day_def msPerDay_def era_def doe_def yoe_def doy_def mp_def civil_day_def civil_month_def
  civil_year_def YearFromTime_def MonthFromTime_def DateFromTime_def WeekDay_def LocalTime_def
  getFullYear_def getMonth_def getDate_def getDay_def setDate_def

lemmas printing =
  toISODate_def isoYear_def padStart_def digit_def decimal_digit decimal_more number_text_def

lemma getGroupBy_presets:
  "getGroupBy ''7d'' = ''day'' \<and> getGroupBy ''30d'' = ''day'' \<and>
   getGroupBy ''3m'' = ''week'' \<and> getGroupBy ''6m'' = ''week'' \<and>
   getGroupBy ''1y'' = ''month'' \<and> getGroupBy ''all'' = ''month'' \<and>
   (period_days p = None \<longrightarrow> getGroupBy p = ''month'')"
  by (simp add: getGroupBy_def period_days_def)

lemma bump_keys: "set (map fst (bump k g)) = insert k (set (map fst g))"
  by (induction k g rule: bump.induct) auto

lemma bump_distinct: "distinct (map fst g) \<Longrightarrow> distinct (map fst (bump k g))"
proof (induction g)
  case Nil
  then show ?case by simp
next
  case (Cons p g)
  obtain k' c where p: "p = (k', c)"
    by (cases p)
  from Cons show ?case
    by (auto simp: p bump_keys simp del: set_map)
qed

lemma fold_bump_distinct:
  "distinct (map fst g) \<Longrightarrow> distinct (map fst (fold (\<lambda>d. bump (key d)) ds g))"
  by (induction ds arbitrary: g) (simp_all add: bump_distinct)

text \<open>The buckets come out in ascending order of their keys, one bucket per key.\<close>

lemma groupScans_sorted:
  "sorted (map fst (groupScans z scanned g)) \<and> distinct (map fst (groupScans z scanned g))"
proof -
  have "distinct (map fst (fold (\<lambda>d. bump (bucket_key z g d)) scanned []))"
    by (rule fold_bump_distinct) simp
  then show ?thesis
    by (simp add: groupScans_def distinct_map)
qed

lemma bump_count:
  "distinct (map fst g) \<Longrightarrow>
   map_of (bump k g) k' =
     (if k' = k then Some (case map_of g k of None \<Rightarrow> 1 | Some c \<Rightarrow> c + 1) else map_of g k')"
proof (induction k g rule: bump.induct)
  case (1 key)
  then show ?case by simp
next
  case (2 key k c groups)
  then show ?case
    by (auto simp: image_iff dest: map_of_SomeD split: option.splits)
qed

lemma fold_bump_count:
  "distinct (map fst g) \<Longrightarrow>
   map_of (fold (\<lambda>d. bump (key d)) ds g) k =
     (if k \<in> key ` set ds
      then Some ((case map_of g k of None \<Rightarrow> 0 | Some c \<Rightarrow> c) + length (filter (\<lambda>d. key d = k) ds))
      else map_of g k)"
proof (induction ds arbitrary: g)
  case Nil
  then show ?case by simp
next
  case (Cons d ds)
  have "distinct (map fst (bump (key d) g))"
    using Cons.prems by (rule bump_distinct)
  from Cons.IH [OF this] show ?case
    using Cons.prems by (auto simp: bump_count filter_empty_conv image_iff split: option.splits)
qed

text \<open>
  Each bucket counts the scans whose key it carries, and there is a bucket for every
  key that occurs.
\<close>

lemma groupScans_counts:
  "(k, c) \<in> set (groupScans z scanned g) \<longleftrightarrow>
     k \<in> bucket_key z g ` set scanned \<and>
     c = length (filter (\<lambda>d. bucket_key z g d = k) scanned)"
proof -
  let ?groups = "fold (\<lambda>d. bump (bucket_key z g d)) scanned []"
  have d: "distinct (map fst ?groups)"
    by (rule fold_bump_distinct) simp
  have "(k, c) \<in> set (groupScans z scanned g) \<longleftrightarrow> map_of ?groups k = Some c"
    using d by (simp add: groupScans_def)
  also have "\<dots> \<longleftrightarrow> k \<in> bucket_key z g ` set scanned \<and>
     c = length (filter (\<lambda>d. bucket_key z g d = k) scanned)"
    by (subst fold_bump_count) auto
  finally show ?thesis .
qed

text \<open>
  When the local time zone is UTC, the week key is the date of an instant that falls
  on a Sunday, at most six days before the scan.
\<close>

lemma week_key_utc:
  "bucket_key 0 ''week'' d = toISODate (d - WeekDay d * msPerDay) \<and>
   WeekDay (d - WeekDay d * msPerDay) = 0 \<and>
   d - 6 * msPerDay \<le> d - WeekDay d * msPerDay \<and> d - WeekDay d * msPerDay \<le> d"
proof -
  have key: "bucket_key 0 ''week'' d = toISODate (d - WeekDay d * msPerDay)"
    by (simp add: bucket_key_def setDate_def getDay_def getDate_def LocalTime_def algebra_simps)
  have "Day (d - WeekDay d * msPerDay) = Day d - WeekDay d"
    by (simp add: Day_def msPerDay_def)
  then have sunday: "WeekDay (d - WeekDay d * msPerDay) = 0"
    by (simp add: WeekDay_def) presburger
  have "0 \<le> WeekDay d" "WeekDay d \<le> 6"
    by (simp_all add: WeekDay_def)
  then have "d - 6 * msPerDay \<le> d - WeekDay d * msPerDay" "d - WeekDay d * msPerDay \<le> d"
    by (simp_all add: msPerDay_def)
  with key sunday show ?thesis
    by simp
qed

text \<open>
  Scans at 2024-01-01 and 2024-01-02 (midnight UTC) under the 7-day window: two buckets
  in ascending order, each with count 1, in any time zone.
\<close>

lemma day_key_0101: "bucket_key z ''day'' 1704067200000 = ''2024-01-01''"
  by (simp add: bucket_key_def calendar printing)

lemma day_key_0102: "bucket_key z ''day'' 1704153600000 = ''2024-01-02''"
  by (simp add: bucket_key_def calendar printing)

lemma day_buckets_example:
  "groupScans z [1704067200000, 1704153600000] (getGroupBy ''7d'') =
     [(''2024-01-01'', 1), (''2024-01-02'', 1)] \<and>
   groupScans z [1704153600000, 1704067200000] (getGroupBy ''7d'') =
     [(''2024-01-01'', 1), (''2024-01-02'', 1)]"
  by (simp add: groupScans_def getGroupBy_def day_key_0101 day_key_0102)

lemma week_key_tokyo: "bucket_key 32400000 ''week'' 1704556800000 = ''2024-01-06''"
  by (simp add: bucket_key_def calendar printing)

lemma week_key_utc_same_scan: "bucket_key 0 ''week'' 1704556800000 = ''2023-12-31''"
  by (simp add: bucket_key_def calendar printing)

lemma saturday_0106: "toISODate 1704499200000 = ''2024-01-06'' \<and> WeekDay 1704499200000 = 6"
  by (simp add: calendar printing)

text \<open>
  C7: the week key is meant to be the Sunday that starts the scan's week. With the local
  time zone nine hours ahead of UTC, a scan at 2024-01-06T16:00Z (Sunday 01:00 local)
  under the 3-month window gets the key 2024-01-06, the date of a Saturday (weekday 6);
  with the local zone UTC the same scan gets 2023-12-31, the Sunday.
\<close>

theorem week_key_local_zone:
  "groupScans 32400000 [1704556800000] (getGroupBy ''3m'') = [(''2024-01-06'', 1)] \<and>
   getDay 32400000 1704556800000 = 0 \<and>
   toISODate 1704499200000 = ''2024-01-06'' \<and> WeekDay 1704499200000 = 6 \<and>
   groupScans 0 [1704556800000] (getGroupBy ''3m'') = [(''2023-12-31'', 1)]"
  by (simp add: groupScans_def getGroupBy_def week_key_tokyo week_key_utc_same_scan saturday_0106)
     (simp add: calendar)

end
